theory Spec2Isabelle
  imports Main "HOL-Library.Word"
begin

section \<open>TinyG controller.c: data model\<close>

text \<open>
  The controller is C over global structures (\<open>tg\<close>, \<open>sig\<close>) and the standard
  error stream. The model threads them through every function as one state value.
  Status codes are \<open>uint8_t\<close>, hence 8-bit words. A C string is modelled by its
  characters up to the terminating NUL; buffer capacities are declared in headers outside
  the source file and are not modelled.
\<close>

type_synonym u8 = "8 word"

text \<open>Modelled from the spec: the numeric values of the status codes of tinyg.h, which
  is outside the sources. Each value is the position of the code's message in the
  table \<open>msgStatus\<close> of controller.c ("OK", "Error", "Eagain", "Noop", ..., "End of file"),
  which the spec calls a fixed mapping from codes to messages.\<close>
definition TG_OK :: u8 where "TG_OK = 0"

text \<open>Modelled from the spec: status code of tinyg.h, position of "Eagain" in \<open>msgStatus\<close>.\<close>
definition TG_EAGAIN :: u8 where "TG_EAGAIN = 2"

text \<open>Modelled from the spec: status code of tinyg.h, position of "Noop" in \<open>msgStatus\<close>.\<close>
definition TG_NOOP :: u8 where "TG_NOOP = 3"

text \<open>Modelled from the spec: status code of tinyg.h, position of "End of file" in \<open>msgStatus\<close>.\<close>
definition TG_EOF :: u8 where "TG_EOF = 6"

text \<open>The character NUL, which is also passed as a status (value 0) in \<open>_dispatch\<close>.\<close>
definition NUL :: char where "NUL = CHR 0x00"

text \<open>Modelled from the spec: the communications modes of controller.h (outside the
  sources); the spec lists exactly TEXT, JSON and GRBL-compatible.\<close>
datatype comm_mode = TG_TEXT_MODE | TG_JSON_MODE | TG_GRBL_MODE

text \<open>The fields of the global \<open>tg\<close> that the functions below read or write
  (\<open>version\<close> and \<open>build\<close> are touched by \<open>tg_init\<close> and \<open>tg_announce\<close> only).\<close>
record controller =
  default_src :: u8
  src :: u8
  communications_mode :: comm_mode
  prompt_enabled :: bool
  in_buf :: string
  out_buf :: string

text \<open>The global \<open>sig\<close>: flags set by interrupt routines.\<close>
record signals =
  sig_abort :: bool
  sig_feedhold :: bool
  sig_cycle_start :: bool

text \<open>Everything controller.c does not own (planner, canonical machine, devices, parsers)
  is the component \<open>world\<close>, of an arbitrary type; \<open>stderr\<close> holds what controller.c
  itself has written to the error stream, in order.\<close>
record 'w state =
  tg :: controller
  sig :: signals
  stderr :: string
  world :: 'w

datatype units_mode = INCHES | MILLIMETERS

datatype pgm_file = startup_tests | gcode_file

datatype value_type = VALUE_TYPE_PARENT | VALUE_TYPE_STRING | VALUE_TYPE_INTEGER

text \<open>The fields of a \<open>cmdObj\<close> that controller.c assigns. The link \<open>nx\<close> chains the
  objects in the order they are filled, which the model keeps as the order of a list.
  \<open>value\<close> is a number that receives a \<open>uint8_t\<close>: no precision is lost.\<close>
record cmdObj =
  token :: string
  value_type :: value_type
  "value" :: int
  string_value :: string

text \<open>Undefined behaviour that controller.c can reach: an index past the end of
  \<open>msgStatus\<close>, and a format directive with no argument to consume.\<close>
datatype fault = Table_Overrun | Bad_Format

text \<open>The collaborators and constants that controller.c takes from other files. Each
  collaborator works on the world; the parsers get the line and give a status, as in
  the call contracts of the spec (section 6). \<open>cm_feedhold\<close>, \<open>cm_cycle_start\<close> also
  receive the signal flags, which they can observe as globals when they run.\<close>
record 'w env =
  XIO_DEV_PGM :: u8
  XIO_DEV_USB :: u8
  XOFF_TX_LO_WATER_MARK :: nat
  STATUS_MESSAGE_LEN :: nat
  sizeof_in_buf :: nat
  gpio_switch_handler :: "'w \<Rightarrow> u8 \<times> 'w"
  rpt_status_report_callback :: "'w \<Rightarrow> u8 \<times> 'w"
  mp_plan_hold_callback :: "'w \<Rightarrow> u8 \<times> 'w"
  mp_end_hold_callback :: "'w \<Rightarrow> u8 \<times> 'w"
  ar_arc_callback :: "'w \<Rightarrow> u8 \<times> 'w"
  cm_homing_callback :: "'w \<Rightarrow> u8 \<times> 'w"
  cm_return_to_home_callback :: "'w \<Rightarrow> u8 \<times> 'w"
  xio_get_tx_bufcount_usart :: "u8 \<Rightarrow> 'w \<Rightarrow> nat"
  mp_test_write_buffer :: "'w \<Rightarrow> bool"
  xio_gets :: "u8 \<Rightarrow> string \<Rightarrow> nat \<Rightarrow> 'w \<Rightarrow> (u8 \<times> string) \<times> 'w"
  cfg_config_parser :: "string \<Rightarrow> 'w \<Rightarrow> u8 \<times> 'w"
  js_json_parser :: "string \<Rightarrow> string \<Rightarrow> 'w \<Rightarrow> (u8 \<times> string) \<times> 'w"
  gc_gcode_parser :: "string \<Rightarrow> 'w \<Rightarrow> u8 \<times> 'w"
  js_make_json_string :: "cmdObj list \<Rightarrow> string \<Rightarrow> string"
  cmd_new_object :: cmdObj
  help_print_general_help :: "'w \<Rightarrow> 'w"
  xio_open_pgm :: "pgm_file \<Rightarrow> 'w \<Rightarrow> 'w"
  cm_get_units_mode :: "'w \<Rightarrow> units_mode"
  cm_feedhold :: "signals \<Rightarrow> 'w \<Rightarrow> 'w"
  cm_cycle_start :: "signals \<Rightarrow> 'w \<Rightarrow> 'w"
  application_init :: "'w \<Rightarrow> 'w"

section \<open>Status messages and prompts\<close>

definition msgStatus :: "string list" where
  "msgStatus =
    [''OK'', ''Error'', ''Eagain'', ''Noop'', ''Complete'',
     ''End of line'', ''End of file'', ''File not open'', ''Max file size exceeded'',
     ''No such device'', ''Buffer empty'', ''Buffer full - fatal'',
     ''Buffer full - non-fatal'', ''Quit'', ''Unrecognized command'',
     ''Number range error'', ''Expected command letter'', ''JSON sysntax error'',
     ''Input exceeds max length'', ''Output exceeds max length'', ''Internal error'',
     ''Bad number format'', ''Floating point error'', ''Arc specification error'',
     ''Zero length line'', ''Gcode input error'', ''Gcode feedrate error'',
     ''Gcode axis word missing'', ''Gcode modal group violation'',
     ''Homing cycle failed'', ''Max travel exceeded'', ''Max spindle speed exceeded'']"

definition pr1 :: string where "pr1 = ''tinyg''"
definition pr_in :: string where "pr_in = ''[inch] ok> ''"
definition pr_mm :: string where "pr_mm = ''[mm] ok> ''"

text \<open>\<open>fprintf(stderr, ...)\<close> with the text the format produces.\<close>
definition fprintf_stderr :: "string \<Rightarrow> 'w state \<Rightarrow> 'w state" where
  "fprintf_stderr txt s = s\<lparr>stderr := stderr s @ txt\<rparr>"

text \<open>\<open>tg_get_status_message\<close>: \<open>strncpy_P\<close> of \<open>msgStatus[status]\<close>, at most
  \<open>STATUS_MESSAGE_LEN\<close> characters. The index is not checked in the source: past the
  32 entries the read is outside the table.\<close>
definition tg_get_status_message :: "'w env \<Rightarrow> u8 \<Rightarrow> fault + string" where
  "tg_get_status_message env status =
    (if unat status < length msgStatus
     then Inr (take (STATUS_MESSAGE_LEN env) (msgStatus ! unat status))
     else Inl Table_Overrun)"

definition prompt_without_message :: "'w env \<Rightarrow> 'w state \<Rightarrow> 'w state" where
  "prompt_without_message env s =
    (if cm_get_units_mode env (world s) = INCHES
     then fprintf_stderr (pr1 @ pr_in) s
     else fprintf_stderr (pr1 @ pr_mm) s)"

text \<open>The format is \<open>"%S: %s \n"\<close>; the table is indexed without a check here too.\<close>
definition prompt_with_message :: "'w env \<Rightarrow> u8 \<Rightarrow> string \<Rightarrow> 'w state \<Rightarrow> fault + 'w state" where
  "prompt_with_message env status buf s =
    (if unat status < length msgStatus
     then Inr (prompt_without_message env
            (fprintf_stderr (msgStatus ! unat status @ '': '' @ buf @ '' '' @ [CHR 0x0A]) s))
     else Inl Table_Overrun)"

section \<open>Input source\<close>

definition set_active_source :: "'w env \<Rightarrow> u8 \<Rightarrow> 'w state \<Rightarrow> 'w state" where
  "set_active_source env dev s =
    (if dev = XIO_DEV_PGM env
     then s\<lparr>tg := (tg s)\<lparr>src := dev, prompt_enabled := False\<rparr>\<rparr>
     else s\<lparr>tg := (tg s)\<lparr>src := dev, prompt_enabled := True\<rparr>\<rparr>)"

definition tg_reset_source :: "'w env \<Rightarrow> 'w state \<Rightarrow> 'w state" where
  "tg_reset_source env s = set_active_source env (default_src (tg s)) s"

definition test_T :: "'w env \<Rightarrow> 'w state \<Rightarrow> u8 \<times> 'w state" where
  "test_T env s =
    (TG_OK, set_active_source env (XIO_DEV_PGM env)
              (s\<lparr>world := xio_open_pgm env startup_tests (world s)\<rparr>))"

definition test_U :: "'w env \<Rightarrow> 'w state \<Rightarrow> u8 \<times> 'w state" where
  "test_U env s =
    (TG_OK, set_active_source env (XIO_DEV_PGM env)
              (s\<lparr>world := xio_open_pgm env gcode_file (world s)\<rparr>))"

text \<open>Modelled from the spec: \<open>tg_application_init\<close>, which \<open>tg_reset\<close> calls and which
  is defined outside the sources. The spec (sections 3, 4.2 and 4.8): on abort the
  application and motion state is fully reinitialised, the controller context is
  reinitialised (its startup mode is TEXT, as \<open>tg_init\<close> sets it), and the active input
  source is reset to the default, discarding any alternate source.\<close>
definition tg_application_init :: "'w env \<Rightarrow> 'w state \<Rightarrow> 'w state" where
  "tg_application_init env s =
    tg_reset_source env
      (s\<lparr>tg := (tg s)\<lparr>communications_mode := TG_TEXT_MODE\<rparr>,
         world := application_init env (world s)\<rparr>)"

definition tg_reset :: "'w env \<Rightarrow> 'w state \<Rightarrow> 'w state" where
  "tg_reset env s = tg_application_init env s"

section \<open>Signal handlers\<close>

definition abort_handler :: "'w env \<Rightarrow> 'w state \<Rightarrow> u8 \<times> 'w state" where
  "abort_handler env s =
    (if sig_abort (sig s) = False then (TG_NOOP, s)
     else (TG_EAGAIN, tg_reset env (s\<lparr>sig := (sig s)\<lparr>sig_abort := False\<rparr>\<rparr>)))"

definition feedhold_handler :: "'w env \<Rightarrow> 'w state \<Rightarrow> u8 \<times> 'w state" where
  "feedhold_handler env s =
    (if sig_feedhold (sig s) = False then (TG_NOOP, s)
     else (let s1 = s\<lparr>sig := (sig s)\<lparr>sig_feedhold := False\<rparr>\<rparr>
           in (TG_EAGAIN, s1\<lparr>world := cm_feedhold env (sig s1) (world s1)\<rparr>)))"

definition cycle_start_handler :: "'w env \<Rightarrow> 'w state \<Rightarrow> u8 \<times> 'w state" where
  "cycle_start_handler env s =
    (if sig_cycle_start (sig s) = False then (TG_NOOP, s)
     else (let s1 = s\<lparr>sig := (sig s)\<lparr>sig_cycle_start := False\<rparr>\<rparr>
           in (TG_EAGAIN, s1\<lparr>world := cm_cycle_start env (sig s1) (world s1)\<rparr>)))"

section \<open>Flow-control gates\<close>

text \<open>The transmit count is read from the device \<open>ds[XIO_DEV_USB]\<close>, whatever \<open>tg.src\<close> is.\<close>
definition sync_to_tx_buffer :: "'w env \<Rightarrow> 'w state \<Rightarrow> u8 \<times> 'w state" where
  "sync_to_tx_buffer env s =
    (if xio_get_tx_bufcount_usart env (XIO_DEV_USB env) (world s) \<ge> XOFF_TX_LO_WATER_MARK env
     then (TG_EAGAIN, s)
     else (TG_OK, s))"

definition sync_to_planner :: "'w env \<Rightarrow> 'w state \<Rightarrow> u8 \<times> 'w state" where
  "sync_to_planner env s =
    (if mp_test_write_buffer env (world s) = False then (TG_EAGAIN, s) else (TG_OK, s))"

section \<open>Responses\<close>

definition dispatch_return :: "'w env \<Rightarrow> u8 \<Rightarrow> string \<Rightarrow> 'w state \<Rightarrow> fault + 'w state" where
  "dispatch_return env status buf s =
    (if communications_mode (tg s) = TG_JSON_MODE then Inr (fprintf_stderr buf s)
     else if communications_mode (tg s) = TG_GRBL_MODE then
       (if status = TG_OK then Inr (fprintf_stderr ''ok'' s)
        else Inr (fprintf_stderr ''err'' s))
     else if communications_mode (tg s) = TG_TEXT_MODE then
       (if status = TG_OK \<or> status = TG_EAGAIN \<or> status = TG_NOOP
        then Inr (prompt_without_message env s)
        else prompt_with_message env status buf s)
     else Inr s)"

text \<open>\<open>sprintf(dst, fmt)\<close> with no further argument: ordinary characters are copied,
  \<open>%%\<close> gives one \<open>%\<close>, and any other directive has no argument to take.\<close>
fun sprintf :: "string \<Rightarrow> fault + string" where
  "sprintf [] = Inr []"
| "sprintf (c # cs) =
    (if c = CHR ''%'' then
       (case cs of
          [] \<Rightarrow> Inl Bad_Format
        | d # ds \<Rightarrow>
            if d = CHR ''%'' then
              (case sprintf ds of Inl f \<Rightarrow> Inl f | Inr r \<Rightarrow> Inr (CHR ''%'' # r))
            else Inl Bad_Format)
     else (case sprintf cs of Inl f \<Rightarrow> Inl f | Inr r \<Rightarrow> Inr (c # r)))"

text \<open>The four objects that \<open>tg_make_json_gcode_response\<close> fills in \<open>cmd_array\<close>, in
  the order of their \<open>nx\<close> links. \<open>block\<close> is the format argument of \<open>sprintf\<close>.\<close>
definition gcode_response_objects :: "'w env \<Rightarrow> u8 \<Rightarrow> string \<Rightarrow> fault + cmdObj list" where
  "gcode_response_objects env status block =
    (case sprintf block of
       Inl f \<Rightarrow> Inl f
     | Inr echo \<Rightarrow>
        (case tg_get_status_message env status of
           Inl f \<Rightarrow> Inl f
         | Inr msg \<Rightarrow>
            Inr [(cmd_new_object env)\<lparr>token := ''gc'', value_type := VALUE_TYPE_PARENT\<rparr>,
                 (cmd_new_object env)\<lparr>token := ''gc'', string_value := echo,
                                       value_type := VALUE_TYPE_STRING\<rparr>,
                 (cmd_new_object env)\<lparr>token := ''st'', value := uint status,
                                       value_type := VALUE_TYPE_INTEGER\<rparr>,
                 (cmd_new_object env)\<lparr>token := ''msg'', string_value := msg,
                                       value_type := VALUE_TYPE_STRING\<rparr>]))"

definition tg_make_json_gcode_response :: "'w env \<Rightarrow> u8 \<Rightarrow> string \<Rightarrow> string \<Rightarrow> fault + string" where
  "tg_make_json_gcode_response env status block out =
    (case gcode_response_objects env status block of
       Inl f \<Rightarrow> Inl f
     | Inr cmds \<Rightarrow> Inr (js_make_json_string env cmds out))"

section \<open>Line dispatcher\<close>

definition toupper :: "char \<Rightarrow> char" where
  "toupper c =
    (let n = (of_char c :: nat) in if 97 \<le> n \<and> n \<le> 122 then char_of (n - 32) else c)"

text \<open>\<open>buf[0]\<close> of a C string: the terminating NUL when the string is empty.\<close>
definition char0 :: "string \<Rightarrow> char" where
  "char0 buf = (case buf of [] \<Rightarrow> NUL | c # _ \<Rightarrow> c)"

text \<open>The end of \<open>_dispatch\<close> after a response: \<open>return (TG_OK)\<close>.\<close>
definition return_OK :: "fault + 'w state \<Rightarrow> fault + u8 \<times> 'w state" where
  "return_OK r = (case r of Inl f \<Rightarrow> Inl f | Inr s \<Rightarrow> Inr (TG_OK, s))"

definition dispatch :: "'w env \<Rightarrow> 'w state \<Rightarrow> fault + u8 \<times> 'w state" where
  "dispatch env s =
    (case xio_gets env (src (tg s)) (in_buf (tg s)) (sizeof_in_buf env) (world s) of
      ((status, line), w) \<Rightarrow>
        let s1 = s\<lparr>tg := (tg s)\<lparr>in_buf := line\<rparr>, world := w\<rparr> in
        if status = TG_OK then
          (let c = toupper (char0 line) in
           if c = CHR ''T'' then Inr (TG_OK, snd (test_T env s1))
           else if c = CHR ''U'' then Inr (TG_OK, snd (test_U env s1))
           else if c = NUL then return_OK (dispatch_return env TG_OK line s1)
           else if c = CHR ''H'' then
             return_OK (dispatch_return env TG_OK line
               (s1\<lparr>world := help_print_general_help env w\<rparr>))
           else if c = CHR ''$'' \<or> c = CHR ''?'' then
             (let s2 = (if communications_mode (tg s1) = TG_GRBL_MODE then s1
                        else s1\<lparr>tg := (tg s1)\<lparr>communications_mode := TG_TEXT_MODE\<rparr>\<rparr>)
              in case cfg_config_parser env line w of
                   (st, w2) \<Rightarrow> return_OK (dispatch_return env st line (s2\<lparr>world := w2\<rparr>)))
           else if c = CHR ''{'' then
             (let s2 = s1\<lparr>tg := (tg s1)\<lparr>communications_mode := TG_JSON_MODE\<rparr>\<rparr>
              in case js_json_parser env line (out_buf (tg s2)) w of
                   ((st, out), w2) \<Rightarrow>
                     return_OK (dispatch_return env st out
                       (s2\<lparr>tg := (tg s2)\<lparr>out_buf := out\<rparr>, world := w2\<rparr>)))
           else if communications_mode (tg s1) = TG_JSON_MODE then
             (case gc_gcode_parser env line w of
                (st, w2) \<Rightarrow>
                  (case tg_make_json_gcode_response env st line (out_buf (tg s1)) of
                     Inl f \<Rightarrow> Inl f
                   | Inr out \<Rightarrow>
                       return_OK (dispatch_return env (of_char NUL) out
                         (s1\<lparr>tg := (tg s1)\<lparr>out_buf := out\<rparr>, world := w2\<rparr>))))
           else
             (case gc_gcode_parser env line w of
                (st, w2) \<Rightarrow> return_OK (dispatch_return env st line (s1\<lparr>world := w2\<rparr>))))
        else if status = TG_EOF then
          Inr (status, tg_reset_source env
                 (fprintf_stderr (''End of command file'' @ [CHR 0x0A]) s1))
        else Inr (status, s1))"

section \<open>Dispatch loop\<close>

text \<open>The thirteen calls of \<open>_controller_HSM\<close>, named after the functions called.\<close>
datatype probe =
  P_gpio_switch_handler | P_abort_handler | P_feedhold_handler | P_cycle_start_handler
| P_rpt_status_report_callback | P_mp_plan_hold_callback | P_mp_end_hold_callback
| P_ar_arc_callback | P_cm_homing_callback | P_cm_return_to_home_callback
| P_sync_to_tx_buffer | P_sync_to_planner | P_dispatch

text \<open>A collaborator's callback, run on the world.\<close>
definition callback :: "('w \<Rightarrow> u8 \<times> 'w) \<Rightarrow> 'w state \<Rightarrow> fault + u8 \<times> 'w state" where
  "callback f s = (case f (world s) of (st, w) \<Rightarrow> Inr (st, s\<lparr>world := w\<rparr>))"

text \<open>The macro \<open>DISPATCH(func)\<close>, \<open>if (func == TG_EAGAIN) return;\<close>, followed by the
  rest of the function body. The pass carries a record of the calls made so far with the
  status each returned; the record is not part of the program.\<close>
definition DISPATCH ::
  "probe \<Rightarrow> ('w state \<Rightarrow> fault + u8 \<times> 'w state) \<Rightarrow>
   ((probe \<times> u8) list \<times> 'w state \<Rightarrow> fault + (probe \<times> u8) list \<times> 'w state) \<Rightarrow>
   (probe \<times> u8) list \<times> 'w state \<Rightarrow> fault + (probe \<times> u8) list \<times> 'w state" where
  "DISPATCH p func rest = (\<lambda>(calls, s).
     case func s of
       Inl f \<Rightarrow> Inl f
     | Inr (st, s') \<Rightarrow>
         if st = TG_EAGAIN then Inr (calls @ [(p, st)], s')
         else rest (calls @ [(p, st)], s'))"

definition controller_HSM :: "'w env \<Rightarrow> 'w state \<Rightarrow> fault + (probe \<times> u8) list \<times> 'w state" where
  "controller_HSM env s =
    (DISPATCH P_gpio_switch_handler (callback (gpio_switch_handler env))
    (DISPATCH P_abort_handler (\<lambda>s. Inr (abort_handler env s))
    (DISPATCH P_feedhold_handler (\<lambda>s. Inr (feedhold_handler env s))
    (DISPATCH P_cycle_start_handler (\<lambda>s. Inr (cycle_start_handler env s))
    (DISPATCH P_rpt_status_report_callback (callback (rpt_status_report_callback env))
    (DISPATCH P_mp_plan_hold_callback (callback (mp_plan_hold_callback env))
    (DISPATCH P_mp_end_hold_callback (callback (mp_end_hold_callback env))
    (DISPATCH P_ar_arc_callback (callback (ar_arc_callback env))
    (DISPATCH P_cm_homing_callback (callback (cm_homing_callback env))
    (DISPATCH P_cm_return_to_home_callback (callback (cm_return_to_home_callback env))
    (DISPATCH P_sync_to_tx_buffer (\<lambda>s. Inr (sync_to_tx_buffer env s))
    (DISPATCH P_sync_to_planner (\<lambda>s. Inr (sync_to_planner env s))
    (DISPATCH P_dispatch (dispatch env) Inr)))))))))))))
    ([], s)"

text \<open>The same pass as a walk over a table of probes, for the proofs.\<close>
fun run_probes ::
  "(probe \<times> ('w state \<Rightarrow> fault + u8 \<times> 'w state)) list \<Rightarrow>
   (probe \<times> u8) list \<times> 'w state \<Rightarrow> fault + (probe \<times> u8) list \<times> 'w state" where
  "run_probes [] = Inr"
| "run_probes ((p, func) # ps) = DISPATCH p func (run_probes ps)"

definition probe_table :: "'w env \<Rightarrow> (probe \<times> ('w state \<Rightarrow> fault + u8 \<times> 'w state)) list" where
  "probe_table env =
    [(P_gpio_switch_handler, callback (gpio_switch_handler env)),
     (P_abort_handler, \<lambda>s. Inr (abort_handler env s)),
     (P_feedhold_handler, \<lambda>s. Inr (feedhold_handler env s)),
     (P_cycle_start_handler, \<lambda>s. Inr (cycle_start_handler env s)),
     (P_rpt_status_report_callback, callback (rpt_status_report_callback env)),
     (P_mp_plan_hold_callback, callback (mp_plan_hold_callback env)),
     (P_mp_end_hold_callback, callback (mp_end_hold_callback env)),
     (P_ar_arc_callback, callback (ar_arc_callback env)),
     (P_cm_homing_callback, callback (cm_homing_callback env)),
     (P_cm_return_to_home_callback, callback (cm_return_to_home_callback env)),
     (P_sync_to_tx_buffer, \<lambda>s. Inr (sync_to_tx_buffer env s)),
     (P_sync_to_planner, \<lambda>s. Inr (sync_to_planner env s)),
     (P_dispatch, dispatch env)]"

text \<open>The priority order of the spec (section 4.1), highest first.\<close>
definition priority_order :: "probe list" where
  "priority_order =
    [P_gpio_switch_handler, P_abort_handler, P_feedhold_handler, P_cycle_start_handler,
     P_rpt_status_report_callback, P_mp_plan_hold_callback, P_mp_end_hold_callback,
     P_ar_arc_callback, P_cm_homing_callback, P_cm_return_to_home_callback,
     P_sync_to_tx_buffer, P_sync_to_planner, P_dispatch]"

section \<open>A concrete machine for the examples\<close>

text \<open>The world of the examples is the result the next \<open>xio_gets\<close> gives: a status and
  a line. Device 1 is USB with an empty transmit queue, every other serial device has ten
  bytes queued; device 3 is the program-memory file.\<close>
definition demo_env :: "(u8 \<times> string) env" where
  "demo_env =
    \<lparr>XIO_DEV_PGM = 3, XIO_DEV_USB = 1, XOFF_TX_LO_WATER_MARK = 4,
     STATUS_MESSAGE_LEN = 32, sizeof_in_buf = 255,
     gpio_switch_handler = (\<lambda>w. (TG_NOOP, w)),
     rpt_status_report_callback = (\<lambda>w. (TG_NOOP, w)),
     mp_plan_hold_callback = (\<lambda>w. (TG_NOOP, w)),
     mp_end_hold_callback = (\<lambda>w. (TG_NOOP, w)),
     ar_arc_callback = (\<lambda>w. (TG_NOOP, w)),
     cm_homing_callback = (\<lambda>w. (TG_NOOP, w)),
     cm_return_to_home_callback = (\<lambda>w. (TG_NOOP, w)),
     xio_get_tx_bufcount_usart = (\<lambda>dev w. if dev = 1 then 0 else 10),
     mp_test_write_buffer = (\<lambda>w. True),
     xio_gets = (\<lambda>dev buf n w. (w, w)),
     cfg_config_parser = (\<lambda>line w. (TG_OK, w)),
     js_json_parser = (\<lambda>line out w. ((17, ''{}''), w)),
     gc_gcode_parser = (\<lambda>line w. (TG_OK, w)),
     js_make_json_string = (\<lambda>cmds out. concat (map string_value cmds)),
     cmd_new_object = \<lparr>token = [], value_type = VALUE_TYPE_PARENT, value = 0, string_value = []\<rparr>,
     help_print_general_help = (\<lambda>w. w),
     xio_open_pgm = (\<lambda>file w. w),
     cm_get_units_mode = (\<lambda>w. MILLIMETERS),
     cm_feedhold = (\<lambda>flags w. w),
     cm_cycle_start = (\<lambda>flags w. w),
     application_init = (\<lambda>w. w)\<rparr>"

text \<open>A state of that machine: text mode, reading from USB, nothing written yet.\<close>
definition demo_state :: "u8 \<times> string \<Rightarrow> (u8 \<times> string) state" where
  "demo_state w =
    \<lparr>tg = \<lparr>default_src = 1, src = 1, communications_mode = TG_TEXT_MODE,
            prompt_enabled = True, in_buf = [], out_buf = []\<rparr>,
     sig = \<lparr>sig_abort = False, sig_feedhold = False, sig_cycle_start = False\<rparr>,
     stderr = [], world = w\<rparr>"

text \<open>The same machine with output backed up on USB: ten bytes queued there, none on
  any other device.\<close>
definition busy_env :: "(u8 \<times> string) env" where
  "busy_env = demo_env\<lparr>xio_get_tx_bufcount_usart := (\<lambda>dev w. if dev = 1 then 10 else 0)\<rparr>"

section \<open>Basic facts\<close>

lemmas status_defs = TG_OK_def TG_EAGAIN_def TG_NOOP_def TG_EOF_def NUL_def

lemmas handler_defs = abort_handler_def feedhold_handler_def cycle_start_handler_def
  tg_reset_def tg_application_init_def tg_reset_source_def set_active_source_def
  sync_to_tx_buffer_def sync_to_planner_def test_T_def test_U_def

lemmas response_defs = dispatch_return_def prompt_without_message_def prompt_with_message_def
  fprintf_stderr_def pr1_def pr_in_def pr_mm_def return_OK_def

lemmas pass_defs = controller_HSM_def DISPATCH_def callback_def dispatch_def char0_def
  toupper_def Let_def

lemmas demo_defs = demo_env_def demo_state_def busy_env_def

lemma length_msgStatus: "length msgStatus = 32"
  by (simp add: msgStatus_def)

lemma status_codes_distinct:
  "TG_OK \<noteq> TG_EAGAIN" "TG_OK \<noteq> TG_NOOP" "TG_OK \<noteq> TG_EOF"
  "TG_EAGAIN \<noteq> TG_NOOP" "TG_EAGAIN \<noteq> TG_EOF" "TG_NOOP \<noteq> TG_EOF"
  by (simp_all add: status_defs)

subsection \<open>The pass as a walk over the probe table\<close>

lemma controller_HSM_table: "controller_HSM env s = run_probes (probe_table env) ([], s)"
  by (simp add: controller_HSM_def probe_table_def)

lemma probe_table_names: "map fst (probe_table env) = priority_order"
  by (simp add: probe_table_def priority_order_def)

lemma length_probe_table: "length (probe_table env) = 13"
  by (simp add: probe_table_def)

lemma length_priority_order: "length priority_order = 13"
  by (simp add: priority_order_def)

lemma probe_table_fst: "i < 13 \<Longrightarrow> fst (probe_table env ! i) = priority_order ! i"
proof -
  assume "i < 13"
  then have "fst (probe_table env ! i) = map fst (probe_table env) ! i"
    by (simp add: length_probe_table)
  then show ?thesis by (simp add: probe_table_names)
qed

text \<open>A finished walk, with the state before each call: every recorded call is the probe
  of that position run on the state its predecessor left, the final state is the one the
  last call left, a \<open>TG_EAGAIN\<close> is the last call, and any other status is followed by the
  next probe.\<close>
lemma run_probes_trace:
  "run_probes ps (calls, s) = Inr (calls', s') \<Longrightarrow>
   \<exists>ext states. calls' = calls @ ext \<and> length states = Suc (length ext) \<and>
     states ! 0 = s \<and> states ! length ext = s' \<and> length ext \<le> length ps \<and>
     (\<forall>i<length ext. fst (ext ! i) = fst (ps ! i) \<and>
        snd (ps ! i) (states ! i) = Inr (snd (ext ! i), states ! Suc i) \<and>
        (snd (ext ! i) = TG_EAGAIN \<longrightarrow> Suc i = length ext) \<and>
        (snd (ext ! i) \<noteq> TG_EAGAIN \<longrightarrow> Suc i < length ps \<longrightarrow> Suc i < length ext)) \<and>
     (ps \<noteq> [] \<longrightarrow> ext \<noteq> [])"
proof (induction ps arbitrary: calls s)
  case Nil
  then show ?case by (intro exI[of _ "[]"] exI[of _ "[s]"]) simp
next
  case (Cons pf ps)
  obtain p func where pf: "pf = (p, func)" by (cases pf)
  from Cons.prems pf obtain st s1 where f: "func s = Inr (st, s1)"
    by (auto simp: DISPATCH_def split: sum.splits)
  show ?case
  proof (cases "st = TG_EAGAIN")
    case True
    with Cons.prems pf f have "calls' = calls @ [(p, st)]" "s' = s1"
      by (simp_all add: DISPATCH_def)
    with True pf f show ?thesis
      by (intro exI[of _ "[(p, st)]"] exI[of _ "[s, s1]"]) auto
  next
    case False
    with Cons.prems pf f have "run_probes ps (calls @ [(p, st)], s1) = Inr (calls', s')"
      by (simp add: DISPATCH_def)
    from Cons.IH[OF this] obtain ext states where ext:
      "calls' = (calls @ [(p, st)]) @ ext" "length states = Suc (length ext)"
      "states ! 0 = s1" "states ! length ext = s'" "length ext \<le> length ps"
      "\<forall>i<length ext. fst (ext ! i) = fst (ps ! i) \<and>
        snd (ps ! i) (states ! i) = Inr (snd (ext ! i), states ! Suc i) \<and>
        (snd (ext ! i) = TG_EAGAIN \<longrightarrow> Suc i = length ext) \<and>
        (snd (ext ! i) \<noteq> TG_EAGAIN \<longrightarrow> Suc i < length ps \<longrightarrow> Suc i < length ext)"
      "ps \<noteq> [] \<longrightarrow> ext \<noteq> []"
      by blast
    show ?thesis
    proof (intro exI[of _ "(p, st) # ext"] exI[of _ "s # states"] conjI allI impI)
      show "calls' = calls @ (p, st) # ext" using ext(1) by simp
      show "length (s # states) = Suc (length ((p, st) # ext))" using ext(2) by simp
      show "(s # states) ! 0 = s" by simp
      show "(s # states) ! length ((p, st) # ext) = s'" using ext(4) by simp
      show "length ((p, st) # ext) \<le> length (pf # ps)" using ext(5) by simp
      show "(p, st) # ext \<noteq> []" by simp
    next
      fix i assume i: "i < length ((p, st) # ext)"
      show "fst (((p, st) # ext) ! i) = fst ((pf # ps) ! i)"
        using i ext(6) pf by (cases i) auto
      show "snd ((pf # ps) ! i) ((s # states) ! i) =
          Inr (snd (((p, st) # ext) ! i), (s # states) ! Suc i)"
        using i ext(3,6) pf f by (cases i) auto
      { assume "snd (((p, st) # ext) ! i) = TG_EAGAIN"
        then show "Suc i = length ((p, st) # ext)"
          using i ext(6) False by (cases i) auto }
      { assume "snd (((p, st) # ext) ! i) \<noteq> TG_EAGAIN" "Suc i < length (pf # ps)"
        then show "Suc i < length ((p, st) # ext)"
          using i ext(6,7) by (cases i) auto }
    qed
  qed
qed

text \<open>A walk that ends in undefined behaviour: the probes before the failing one ran in
  order, none returned \<open>TG_EAGAIN\<close>.\<close>
lemma run_probes_fault_trace:
  "run_probes ps (calls, s) = Inl f \<Longrightarrow>
   \<exists>ext states. length states = Suc (length ext) \<and> states ! 0 = s \<and> length ext < length ps \<and>
     (\<forall>i<length ext. fst (ext ! i) = fst (ps ! i) \<and>
        snd (ps ! i) (states ! i) = Inr (snd (ext ! i), states ! Suc i) \<and>
        snd (ext ! i) \<noteq> TG_EAGAIN) \<and>
     snd (ps ! length ext) (states ! length ext) = Inl f"
proof (induction ps arbitrary: calls s)
  case Nil
  then show ?case by simp
next
  case (Cons pf ps)
  obtain p func where pf: "pf = (p, func)" by (cases pf)
  show ?case
  proof (cases "func s")
    case (Inl g)
    with Cons.prems pf have "g = f" by (simp add: DISPATCH_def)
    with Inl pf show ?thesis
      by (intro exI[of _ "[]"] exI[of _ "[s]"]) simp
  next
    case (Inr r)
    obtain st s1 where r: "r = (st, s1)" by (cases r)
    with Inr Cons.prems pf have ne: "st \<noteq> TG_EAGAIN"
      and run: "run_probes ps (calls @ [(p, st)], s1) = Inl f"
      by (auto simp: DISPATCH_def split: if_splits)
    from Cons.IH[OF run] obtain ext states where ext:
      "length states = Suc (length ext)" "states ! 0 = s1" "length ext < length ps"
      "\<forall>i<length ext. fst (ext ! i) = fst (ps ! i) \<and>
        snd (ps ! i) (states ! i) = Inr (snd (ext ! i), states ! Suc i) \<and>
        snd (ext ! i) \<noteq> TG_EAGAIN"
      "snd (ps ! length ext) (states ! length ext) = Inl f"
      by blast
    show ?thesis
    proof (intro exI[of _ "(p, st) # ext"] exI[of _ "s # states"] conjI allI impI)
      show "length (s # states) = Suc (length ((p, st) # ext))" using ext(1) by simp
      show "(s # states) ! 0 = s" by simp
      show "length ((p, st) # ext) < length (pf # ps)" using ext(3) by simp
      show "snd ((pf # ps) ! length ((p, st) # ext)) ((s # states) ! length ((p, st) # ext)) = Inl f"
        using ext(5) by simp
    next
      fix i assume i: "i < length ((p, st) # ext)"
      show "fst (((p, st) # ext) ! i) = fst ((pf # ps) ! i)"
        using i ext(4) pf by (cases i) auto
      show "snd ((pf # ps) ! i) ((s # states) ! i) =
          Inr (snd (((p, st) # ext) ! i), (s # states) ! Suc i)"
        using i ext(2,4) pf Inr r by (cases i) auto
      show "snd (((p, st) # ext) ! i) \<noteq> TG_EAGAIN"
        using i ext(4) ne by (cases i) auto
    qed
  qed
qed

text \<open>Only the line dispatcher can end in undefined behaviour.\<close>
lemma probe_table_no_fault:
  assumes "i < 12"
  shows "snd (probe_table env ! i) t \<noteq> Inl f"
proof -
  have all: "\<forall>pf \<in> set (take 12 (probe_table env)). snd pf t \<noteq> Inl f"
    by (simp add: probe_table_def callback_def split: prod.splits)
  from assms have "take 12 (probe_table env) ! i \<in> set (take 12 (probe_table env))"
    by (intro nth_mem) (simp add: length_probe_table)
  with assms all show ?thesis by simp
qed

lemma controller_HSM_trace:
  assumes "controller_HSM env s = Inr (calls, s')"
  shows "\<exists>states. length states = Suc (length calls) \<and> states ! 0 = s \<and>
     states ! length calls = s' \<and> calls \<noteq> [] \<and> length calls \<le> 13 \<and>
     (\<forall>i<length calls. fst (calls ! i) = priority_order ! i \<and>
        snd (probe_table env ! i) (states ! i) = Inr (snd (calls ! i), states ! Suc i) \<and>
        (snd (calls ! i) = TG_EAGAIN \<longrightarrow> Suc i = length calls) \<and>
        (snd (calls ! i) \<noteq> TG_EAGAIN \<longrightarrow> Suc i < 13 \<longrightarrow> Suc i < length calls))"
proof -
  from assms have "run_probes (probe_table env) ([], s) = Inr (calls, s')"
    by (simp add: controller_HSM_table)
  from run_probes_trace[OF this] obtain states where st:
    "length states = Suc (length calls)" "states ! 0 = s" "states ! length calls = s'"
    "length calls \<le> length (probe_table env)"
    "\<forall>i<length calls. fst (calls ! i) = fst (probe_table env ! i) \<and>
        snd (probe_table env ! i) (states ! i) = Inr (snd (calls ! i), states ! Suc i) \<and>
        (snd (calls ! i) = TG_EAGAIN \<longrightarrow> Suc i = length calls) \<and>
        (snd (calls ! i) \<noteq> TG_EAGAIN \<longrightarrow> Suc i < length (probe_table env) \<longrightarrow>
           Suc i < length calls)"
    "probe_table env \<noteq> [] \<longrightarrow> calls \<noteq> []"
    by auto
  have len: "length calls \<le> 13" using st(4) by (simp add: length_probe_table)
  have ne: "calls \<noteq> []" using st(6) by (simp add: probe_table_def)
  have "\<forall>i<length calls. fst (calls ! i) = priority_order ! i \<and>
        snd (probe_table env ! i) (states ! i) = Inr (snd (calls ! i), states ! Suc i) \<and>
        (snd (calls ! i) = TG_EAGAIN \<longrightarrow> Suc i = length calls) \<and>
        (snd (calls ! i) \<noteq> TG_EAGAIN \<longrightarrow> Suc i < 13 \<longrightarrow> Suc i < length calls)"
    using st(5) len by (auto simp: length_probe_table probe_table_fst)
  with st(1,2,3) len ne show ?thesis by blast
qed

lemma controller_HSM_fault_trace:
  assumes "controller_HSM env s = Inl f"
  shows "\<exists>calls states. length calls = 12 \<and> length states = 13 \<and> states ! 0 = s \<and>
     (\<forall>i<12. fst (calls ! i) = priority_order ! i \<and>
        snd (probe_table env ! i) (states ! i) = Inr (snd (calls ! i), states ! Suc i) \<and>
        snd (calls ! i) \<noteq> TG_EAGAIN) \<and>
     dispatch env (states ! 12) = Inl f"
proof -
  from assms have "run_probes (probe_table env) ([], s) = Inl f"
    by (simp add: controller_HSM_table)
  from run_probes_fault_trace[OF this] obtain ext states where e:
    "length states = Suc (length ext)" "states ! 0 = s" "length ext < length (probe_table env)"
    "\<forall>i<length ext. fst (ext ! i) = fst (probe_table env ! i) \<and>
        snd (probe_table env ! i) (states ! i) = Inr (snd (ext ! i), states ! Suc i) \<and>
        snd (ext ! i) \<noteq> TG_EAGAIN"
    "snd (probe_table env ! length ext) (states ! length ext) = Inl f"
    by blast
  have "\<not> length ext < 12" using probe_table_no_fault e(5) by blast
  with e(3) have len: "length ext = 12" by (simp add: length_probe_table)
  have "dispatch env (states ! 12) = Inl f"
    using e(5) len by (simp add: probe_table_def)
  moreover have "\<forall>i<12. fst (ext ! i) = priority_order ! i \<and>
        snd (probe_table env ! i) (states ! i) = Inr (snd (ext ! i), states ! Suc i) \<and>
        snd (ext ! i) \<noteq> TG_EAGAIN"
    using e(4) len by (auto simp: probe_table_fst)
  ultimately show ?thesis using e(1,2) len by (intro exI[of _ ext] exI[of _ states]) simp
qed

text \<open>The line dispatcher is called exactly in the passes that call all thirteen probes.\<close>
lemma dispatch_called_last:
  assumes "controller_HSM env s = Inr (calls, s')"
  shows "P_dispatch \<in> fst ` set calls \<longleftrightarrow> length calls = 13"
proof -
  from controller_HSM_trace[OF assms] obtain states where st:
    "length calls \<le> 13"
    "\<forall>i<length calls. fst (calls ! i) = priority_order ! i"
    by blast
  show ?thesis
  proof
    assume "P_dispatch \<in> fst ` set calls"
    then obtain i where i: "i < length calls" "fst (calls ! i) = P_dispatch"
      by (auto simp: in_set_conv_nth)
    with st(2) have p: "priority_order ! i = P_dispatch" by simp
    show "length calls = 13"
    proof (rule ccontr)
      assume "length calls \<noteq> 13"
      with st(1) i have i12: "i < 12" by simp
      then have "take 12 priority_order ! i = priority_order ! i" by simp
      moreover from i12 have "take 12 priority_order ! i \<in> set (take 12 priority_order)"
        by (intro nth_mem) (simp add: length_priority_order)
      moreover have "P_dispatch \<notin> set (take 12 priority_order)"
        by (simp add: priority_order_def)
      ultimately show False using p by simp
    qed
  next
    assume len: "length calls = 13"
    with st(2)[rule_format, of 12] have "fst (calls ! 12) = P_dispatch"
      by (simp add: priority_order_def)
    moreover from len have "calls ! 12 \<in> set calls" by (intro nth_mem) simp
    ultimately show "P_dispatch \<in> fst ` set calls" by force
  qed
qed

text \<open>The transmit gate gives the same answer whatever the active source is.\<close>
lemma tx_gate_ignores_src:
  "fst (sync_to_tx_buffer env (s\<lparr>tg := (tg s)\<lparr>src := dev\<rparr>\<rparr>)) = fst (sync_to_tx_buffer env s)"
  by (simp add: sync_to_tx_buffer_def)

lemma toupper_letter:
  assumes "97 \<le> (of_char c :: nat)" and "(of_char c :: nat) \<le> 122"
  shows "(of_char (toupper c) :: nat) = of_char c - 32"
proof -
  have "toupper c = char_of (of_char c - (32::nat))"
    using assms by (simp add: toupper_def Let_def)
  then have "(of_char (toupper c) :: nat) = (of_char c - 32) mod 256"
    by simp
  with assms show ?thesis by simp
qed

lemma toupper_other:
  "\<not> (97 \<le> (of_char c :: nat) \<and> (of_char c :: nat) \<le> 122) \<Longrightarrow> toupper c = c"
  by (auto simp: toupper_def Let_def)

text \<open>Folding the case maps no other character onto \<open>$\<close>, \<open>?\<close> or \<open>{\<close>.\<close>
lemma toupper_punctuation:
  "toupper c = CHR ''$'' \<longleftrightarrow> c = CHR ''$''"
  "toupper c = CHR ''?'' \<longleftrightarrow> c = CHR ''?''"
  "toupper c = CHR ''{'' \<longleftrightarrow> c = CHR ''{''"
proof -
  have *: "toupper c = d \<longleftrightarrow> c = d"
    if d: "(of_char d :: nat) < 65 \<or> 122 < (of_char d :: nat)" for d
  proof (cases "97 \<le> (of_char c :: nat) \<and> (of_char c :: nat) \<le> 122")
    case True
    then have "(of_char (toupper c) :: nat) = of_char c - 32"
      by (simp add: toupper_letter)
    with True d have "toupper c \<noteq> d" "c \<noteq> d" by auto
    then show ?thesis by simp
  next
    case False
    then show ?thesis by (simp add: toupper_other)
  qed
  show "toupper c = CHR ''$'' \<longleftrightarrow> c = CHR ''$''" by (rule *) simp
  show "toupper c = CHR ''?'' \<longleftrightarrow> c = CHR ''?''" by (rule *) simp
  show "toupper c = CHR ''{'' \<longleftrightarrow> c = CHR ''{''" by (rule *) simp
qed

text \<open>The letters are folded: \<open>h\<close> and \<open>H\<close>, \<open>t\<close> and \<open>T\<close>, \<open>u\<close> and \<open>U\<close>.\<close>
lemma toupper_letters:
  "toupper (CHR ''h'') = CHR ''H''" "toupper (CHR ''t'') = CHR ''T''"
  "toupper (CHR ''u'') = CHR ''U''" "toupper (CHR ''H'') = CHR ''H''"
  by (simp_all add: toupper_def Let_def) code_simp+

lemma sprintf_no_percent: "CHR ''%'' \<notin> set block \<Longrightarrow> sprintf block = Inr block"
  by (induction block) auto

text \<open>For a line without \<open>%\<close> and a status of the taxonomy the four objects are the
  group marker, the line as a string, the status as an integer and its message.\<close>
lemma gcode_response_objects_plain:
  assumes "CHR ''%'' \<notin> set block" and "unat status < 32"
  shows "gcode_response_objects env status block =
     Inr [(cmd_new_object env)\<lparr>token := ''gc'', value_type := VALUE_TYPE_PARENT\<rparr>,
          (cmd_new_object env)\<lparr>token := ''gc'', string_value := block,
                                value_type := VALUE_TYPE_STRING\<rparr>,
          (cmd_new_object env)\<lparr>token := ''st'', value := uint status,
                                value_type := VALUE_TYPE_INTEGER\<rparr>,
          (cmd_new_object env)\<lparr>token := ''msg'',
                                string_value := take (STATUS_MESSAGE_LEN env) (msgStatus ! unat status),
                                value_type := VALUE_TYPE_STRING\<rparr>]"
  using assms
  by (simp add: gcode_response_objects_def sprintf_no_percent tg_get_status_message_def
      length_msgStatus)

text \<open>A G-code line in JSON mode for which the four objects are built (by
  \<open>gcode_response_objects_plain\<close>: a line without \<open>%\<close> and a status of the
  taxonomy): the serialised objects become the output buffer and are written out, with no
  prompt; the dispatcher returns \<open>TG_OK\<close> whatever the parser's status was.\<close>
lemma dispatch_json_gcode:
  assumes "xio_gets env (src (tg s)) (in_buf (tg s)) (sizeof_in_buf env) (world s) = ((TG_OK, line), w)"
    and "communications_mode (tg s) = TG_JSON_MODE"
    and "toupper (char0 line) \<notin> {CHR ''T'', CHR ''U'', NUL, CHR ''H'', CHR ''$'', CHR ''?'', CHR ''{''}"
    and "gc_gcode_parser env line w = (st, w2)"
    and "gcode_response_objects env st line = Inr cmds"
  shows "dispatch env s =
     Inr (TG_OK, s\<lparr>tg := (tg s)\<lparr>in_buf := line,
                                  out_buf := js_make_json_string env cmds (out_buf (tg s))\<rparr>,
                    stderr := stderr s @ js_make_json_string env cmds (out_buf (tg s)),
                    world := w2\<rparr>)"
  using assms
  by (simp add: dispatch_def Let_def tg_make_json_gcode_response_def dispatch_return_def
      fprintf_stderr_def return_OK_def)

lemma set_active_source_prompt:
  "src (tg (set_active_source env dev s)) = dev \<and>
   prompt_enabled (tg (set_active_source env dev s)) = (dev \<noteq> XIO_DEV_PGM env)"
  by (simp add: set_active_source_def)

section \<open>The dispatch loop\<close>

text \<open>C1: in every pass the thirteen probes are attempted in the fixed priority order
  (the table pairs each name of the order with the function called at that position).
  A pass that returns has called a non-empty initial segment of the order; each call is the
  probe of that position, run on the state its predecessor left (the first on the state the
  pass started in), and the state the pass ends in is the state the last call left, so no
  probe after it has run; a probe that returns CONTINUE (\<open>TG_EAGAIN\<close>) is the last one
  called; after any other status the next probe in the order, if there is one, is called.
  A pass that does not return (undefined behaviour in the line dispatcher) has run the
  twelve probes before it in the same way, none of them returning CONTINUE.\<close>
theorem controller_HSM_priority_order:
  "map fst (probe_table env) = priority_order \<and>
   (controller_HSM env s = Inr (calls, s') \<longrightarrow>
      (\<exists>states. length states = Suc (length calls) \<and> states ! 0 = s \<and>
         states ! length calls = s' \<and> calls \<noteq> [] \<and>
         map fst calls = take (length calls) priority_order \<and>
         (\<forall>i<length calls.
            snd (probe_table env ! i) (states ! i) = Inr (snd (calls ! i), states ! Suc i)) \<and>
         (\<forall>i<length calls. snd (calls ! i) = TG_EAGAIN \<longrightarrow> Suc i = length calls) \<and>
         (\<forall>i<length calls. snd (calls ! i) \<noteq> TG_EAGAIN \<longrightarrow> Suc i < length priority_order \<longrightarrow>
            Suc i < length calls))) \<and>
   (controller_HSM env s = Inl f \<longrightarrow>
      (\<exists>sts states. length sts = 12 \<and> length states = 13 \<and> states ! 0 = s \<and>
         (\<forall>i<12. snd (probe_table env ! i) (states ! i) = Inr (sts ! i, states ! Suc i) \<and>
                  sts ! i \<noteq> TG_EAGAIN) \<and>
         dispatch env (states ! 12) = Inl f))"
proof (intro conjI impI)
  assume run: "controller_HSM env s = Inr (calls, s')"
  from controller_HSM_trace[OF run] obtain states where st:
    "length states = Suc (length calls)" "states ! 0 = s" "states ! length calls = s'"
    "calls \<noteq> []" "length calls \<le> 13"
    "\<forall>i<length calls. fst (calls ! i) = priority_order ! i \<and>
        snd (probe_table env ! i) (states ! i) = Inr (snd (calls ! i), states ! Suc i) \<and>
        (snd (calls ! i) = TG_EAGAIN \<longrightarrow> Suc i = length calls) \<and>
        (snd (calls ! i) \<noteq> TG_EAGAIN \<longrightarrow> Suc i < 13 \<longrightarrow> Suc i < length calls)"
    by blast
  have names: "map fst calls = take (length calls) priority_order"
    using st(5,6) by (intro nth_equalityI) (simp_all add: length_priority_order)
  show "\<exists>states. length states = Suc (length calls) \<and> states ! 0 = s \<and>
         states ! length calls = s' \<and> calls \<noteq> [] \<and>
         map fst calls = take (length calls) priority_order \<and>
         (\<forall>i<length calls.
            snd (probe_table env ! i) (states ! i) = Inr (snd (calls ! i), states ! Suc i)) \<and>
         (\<forall>i<length calls. snd (calls ! i) = TG_EAGAIN \<longrightarrow> Suc i = length calls) \<and>
         (\<forall>i<length calls. snd (calls ! i) \<noteq> TG_EAGAIN \<longrightarrow> Suc i < length priority_order \<longrightarrow>
            Suc i < length calls)"
    using st names by (intro exI[of _ states]) (simp add: length_priority_order)
next
  assume "controller_HSM env s = Inl f"
  from controller_HSM_fault_trace[OF this] obtain calls states where
    "length calls = 12" "length states = 13" "states ! 0 = s"
    "\<forall>i<12. fst (calls ! i) = priority_order ! i \<and>
        snd (probe_table env ! i) (states ! i) = Inr (snd (calls ! i), states ! Suc i) \<and>
        snd (calls ! i) \<noteq> TG_EAGAIN"
    "dispatch env (states ! 12) = Inl f"
    by blast
  then show "\<exists>sts states. length sts = 12 \<and> length states = 13 \<and> states ! 0 = s \<and>
         (\<forall>i<12. snd (probe_table env ! i) (states ! i) = Inr (sts ! i, states ! Suc i) \<and>
                  sts ! i \<noteq> TG_EAGAIN) \<and>
         dispatch env (states ! 12) = Inl f"
    by (intro exI[of _ "map snd calls"] exI[of _ states]) simp
next
  show "map fst (probe_table env) = priority_order" by (rule probe_table_names)
qed

text \<open>A pass with the feedhold flag set and the line \<open>$x\<close> waiting: the switch scan and
  the abort handler have nothing to do, the feedhold handler returns \<open>TG_EAGAIN\<close> and the
  pass ends in the state that handler left; the line is not read and nothing is written.
  And a pass in JSON mode on the line \<open>%\<close>, which ends in the line dispatcher.\<close>
theorem controller_HSM_priority_order_witness:
  "controller_HSM demo_env
     ((demo_state (TG_OK, ''$x''))\<lparr>sig := \<lparr>sig_abort = False, sig_feedhold = True, sig_cycle_start = False\<rparr>\<rparr>) =
   Inr ([(P_gpio_switch_handler, TG_NOOP), (P_abort_handler, TG_NOOP), (P_feedhold_handler, TG_EAGAIN)],
        demo_state (TG_OK, ''$x'')) \<and>
   map fst [(P_gpio_switch_handler, TG_NOOP), (P_abort_handler, TG_NOOP), (P_feedhold_handler, TG_EAGAIN)] =
     take 3 priority_order \<and>
   feedhold_handler demo_env
     ((demo_state (TG_OK, ''$x''))\<lparr>sig := \<lparr>sig_abort = False, sig_feedhold = True, sig_cycle_start = False\<rparr>\<rparr>) =
     (TG_EAGAIN, demo_state (TG_OK, ''$x'')) \<and>
   stderr (demo_state (TG_OK, ''$x'')) = [] \<and>
   controller_HSM demo_env
     ((demo_state (TG_OK, ''%''))\<lparr>tg := (tg (demo_state (TG_OK, ''%'')))\<lparr>communications_mode := TG_JSON_MODE\<rparr>\<rparr>) =
     Inl Bad_Format \<and>
   dispatch demo_env
     ((demo_state (TG_OK, ''%''))\<lparr>tg := (tg (demo_state (TG_OK, ''%'')))\<lparr>communications_mode := TG_JSON_MODE\<rparr>\<rparr>) =
     Inl Bad_Format"
  using controller_HSM_priority_order
    [of demo_env
      "(demo_state (TG_OK, ''$x''))\<lparr>sig := \<lparr>sig_abort = False, sig_feedhold = True, sig_cycle_start = False\<rparr>\<rparr>"
      "[(P_gpio_switch_handler, TG_NOOP), (P_abort_handler, TG_NOOP), (P_feedhold_handler, TG_EAGAIN)]"
      "demo_state (TG_OK, ''$x'')"]
    controller_HSM_priority_order
    [of demo_env
      "(demo_state (TG_OK, ''%''))\<lparr>tg := (tg (demo_state (TG_OK, ''%'')))\<lparr>communications_mode := TG_JSON_MODE\<rparr>\<rparr>"
      _ _ Bad_Format]
  by (simp add: pass_defs handler_defs demo_defs status_defs priority_order_def
      tg_make_json_gcode_response_def gcode_response_objects_def)

section \<open>Signal handlers\<close>

text \<open>C2: each of the three handlers returns NOOP and leaves the state as it is when its
  flag is unset; when the flag is set it clears the flag, then performs its one transition
  (the reset, the feedhold, the cycle start) in the state where the flag is already
  clear, and returns CONTINUE (\<open>TG_EAGAIN\<close>).\<close>
theorem signal_handlers_consume_flag:
  "(\<not> sig_abort (sig s) \<longrightarrow> abort_handler env s = (TG_NOOP, s)) \<and>
   (sig_abort (sig s) \<longrightarrow>
      abort_handler env s =
        (TG_EAGAIN, tg_reset env (s\<lparr>sig := (sig s)\<lparr>sig_abort := False\<rparr>\<rparr>))) \<and>
   (\<not> sig_feedhold (sig s) \<longrightarrow> feedhold_handler env s = (TG_NOOP, s)) \<and>
   (sig_feedhold (sig s) \<longrightarrow>
      feedhold_handler env s =
        (TG_EAGAIN, s\<lparr>sig := (sig s)\<lparr>sig_feedhold := False\<rparr>,
                      world := cm_feedhold env ((sig s)\<lparr>sig_feedhold := False\<rparr>) (world s)\<rparr>)) \<and>
   (\<not> sig_cycle_start (sig s) \<longrightarrow> cycle_start_handler env s = (TG_NOOP, s)) \<and>
   (sig_cycle_start (sig s) \<longrightarrow>
      cycle_start_handler env s =
        (TG_EAGAIN, s\<lparr>sig := (sig s)\<lparr>sig_cycle_start := False\<rparr>,
                      world := cm_cycle_start env ((sig s)\<lparr>sig_cycle_start := False\<rparr>) (world s)\<rparr>))"
  by (simp add: abort_handler_def feedhold_handler_def cycle_start_handler_def Let_def)

text \<open>Two states between them set and unset every flag.\<close>
theorem signal_handlers_consume_flag_witness:
  "abort_handler demo_env
     ((demo_state (TG_EAGAIN, []))\<lparr>sig := \<lparr>sig_abort = True, sig_feedhold = False, sig_cycle_start = True\<rparr>\<rparr>) =
     (TG_EAGAIN, tg_reset demo_env
        ((demo_state (TG_EAGAIN, []))\<lparr>sig := \<lparr>sig_abort = False, sig_feedhold = False, sig_cycle_start = True\<rparr>\<rparr>)) \<and>
   feedhold_handler demo_env
     ((demo_state (TG_EAGAIN, []))\<lparr>sig := \<lparr>sig_abort = True, sig_feedhold = False, sig_cycle_start = True\<rparr>\<rparr>) =
     (TG_NOOP,
      (demo_state (TG_EAGAIN, []))\<lparr>sig := \<lparr>sig_abort = True, sig_feedhold = False, sig_cycle_start = True\<rparr>\<rparr>) \<and>
   cycle_start_handler demo_env
     ((demo_state (TG_EAGAIN, []))\<lparr>sig := \<lparr>sig_abort = True, sig_feedhold = False, sig_cycle_start = True\<rparr>\<rparr>) =
     (TG_EAGAIN,
      (demo_state (TG_EAGAIN, []))\<lparr>sig := \<lparr>sig_abort = True, sig_feedhold = False, sig_cycle_start = False\<rparr>\<rparr>) \<and>
   abort_handler demo_env
     ((demo_state (TG_EAGAIN, []))\<lparr>sig := \<lparr>sig_abort = False, sig_feedhold = True, sig_cycle_start = False\<rparr>\<rparr>) =
     (TG_NOOP,
      (demo_state (TG_EAGAIN, []))\<lparr>sig := \<lparr>sig_abort = False, sig_feedhold = True, sig_cycle_start = False\<rparr>\<rparr>) \<and>
   feedhold_handler demo_env
     ((demo_state (TG_EAGAIN, []))\<lparr>sig := \<lparr>sig_abort = False, sig_feedhold = True, sig_cycle_start = False\<rparr>\<rparr>) =
     (TG_EAGAIN, demo_state (TG_EAGAIN, [])) \<and>
   cycle_start_handler demo_env
     ((demo_state (TG_EAGAIN, []))\<lparr>sig := \<lparr>sig_abort = False, sig_feedhold = True, sig_cycle_start = False\<rparr>\<rparr>) =
     (TG_NOOP,
      (demo_state (TG_EAGAIN, []))\<lparr>sig := \<lparr>sig_abort = False, sig_feedhold = True, sig_cycle_start = False\<rparr>\<rparr>)"
  using signal_handlers_consume_flag
    [of "(demo_state (TG_EAGAIN, []))\<lparr>sig := \<lparr>sig_abort = True, sig_feedhold = False, sig_cycle_start = True\<rparr>\<rparr>"
        demo_env]
    signal_handlers_consume_flag
    [of "(demo_state (TG_EAGAIN, []))\<lparr>sig := \<lparr>sig_abort = False, sig_feedhold = True, sig_cycle_start = False\<rparr>\<rparr>"
        demo_env]
  by (simp add: demo_defs)

section \<open>Responses\<close>

text \<open>In TEXT mode the status 32 is none of SUCCESS, CONTINUE and NOOP, and the message
  table is read past its end.\<close>
theorem dispatch_return_text_status_32:
  "communications_mode (tg (demo_state (TG_OK, []))) = TG_TEXT_MODE \<and>
   dispatch_return demo_env 32 ''zz'' (demo_state (TG_OK, [])) = Inl Table_Overrun"
  by (simp add: demo_defs status_defs response_defs length_msgStatus)

text \<open>C3, as the code has it: the response emitter by communications mode. JSON: the
  buffer, verbatim, and nothing else. GRBL-compatible: exactly "ok" for SUCCESS
  (\<open>TG_OK\<close>) and exactly "err" for every other status. TEXT: for SUCCESS, CONTINUE and
  NOOP only the prompt, which depends on the units mode; for any other status from 0 to 31
  the message, the buffer, and then the prompt; for a status of 32 or more the message
  table is read past its end and nothing is emitted by a defined execution.\<close>
theorem dispatch_return_by_mode:
  "(communications_mode (tg s) = TG_JSON_MODE \<longrightarrow>
      dispatch_return env status buf s = Inr (s\<lparr>stderr := stderr s @ buf\<rparr>)) \<and>
   (communications_mode (tg s) = TG_GRBL_MODE \<and> status = TG_OK \<longrightarrow>
      dispatch_return env status buf s = Inr (s\<lparr>stderr := stderr s @ ''ok''\<rparr>)) \<and>
   (communications_mode (tg s) = TG_GRBL_MODE \<and> status \<noteq> TG_OK \<longrightarrow>
      dispatch_return env status buf s = Inr (s\<lparr>stderr := stderr s @ ''err''\<rparr>)) \<and>
   (communications_mode (tg s) = TG_TEXT_MODE \<and> status \<in> {TG_OK, TG_EAGAIN, TG_NOOP} \<longrightarrow>
      dispatch_return env status buf s =
        Inr (s\<lparr>stderr := stderr s @ ''tinyg'' @
               (if cm_get_units_mode env (world s) = INCHES then ''[inch] ok> '' else ''[mm] ok> '')\<rparr>)) \<and>
   (communications_mode (tg s) = TG_TEXT_MODE \<and> status \<notin> {TG_OK, TG_EAGAIN, TG_NOOP} \<and>
    unat status < 32 \<longrightarrow>
      dispatch_return env status buf s =
        Inr (s\<lparr>stderr := stderr s @ msgStatus ! unat status @ '': '' @ buf @ '' '' @ [CHR 0x0A] @
               ''tinyg'' @
               (if cm_get_units_mode env (world s) = INCHES then ''[inch] ok> '' else ''[mm] ok> '')\<rparr>)) \<and>
   (communications_mode (tg s) = TG_TEXT_MODE \<and> 32 \<le> unat status \<longrightarrow>
      dispatch_return env status buf s = Inl Table_Overrun)"
  by (auto simp: dispatch_return_def prompt_without_message_def prompt_with_message_def
      fprintf_stderr_def pr1_def pr_in_def pr_mm_def length_msgStatus status_defs)

text \<open>One response for each of the six cases.\<close>
theorem dispatch_return_by_mode_witness:
  "dispatch_return demo_env 17 ''{}''
     ((demo_state (TG_OK, []))\<lparr>tg := (tg (demo_state (TG_OK, [])))\<lparr>communications_mode := TG_JSON_MODE\<rparr>\<rparr>) =
     Inr ((demo_state (TG_OK, []))\<lparr>tg := (tg (demo_state (TG_OK, [])))\<lparr>communications_mode := TG_JSON_MODE\<rparr>,
                                  stderr := ''{}''\<rparr>) \<and>
   dispatch_return demo_env TG_OK ''g0 x1''
     ((demo_state (TG_OK, []))\<lparr>tg := (tg (demo_state (TG_OK, [])))\<lparr>communications_mode := TG_GRBL_MODE\<rparr>\<rparr>) =
     Inr ((demo_state (TG_OK, []))\<lparr>tg := (tg (demo_state (TG_OK, [])))\<lparr>communications_mode := TG_GRBL_MODE\<rparr>,
                                  stderr := ''ok''\<rparr>) \<and>
   dispatch_return demo_env 14 ''g0 x1''
     ((demo_state (TG_OK, []))\<lparr>tg := (tg (demo_state (TG_OK, [])))\<lparr>communications_mode := TG_GRBL_MODE\<rparr>\<rparr>) =
     Inr ((demo_state (TG_OK, []))\<lparr>tg := (tg (demo_state (TG_OK, [])))\<lparr>communications_mode := TG_GRBL_MODE\<rparr>,
                                  stderr := ''err''\<rparr>) \<and>
   dispatch_return demo_env TG_NOOP ''$x'' (demo_state (TG_OK, [])) =
     Inr ((demo_state (TG_OK, []))\<lparr>stderr := ''tinyg[mm] ok> ''\<rparr>) \<and>
   dispatch_return demo_env 14 ''zz'' (demo_state (TG_OK, [])) =
     Inr ((demo_state (TG_OK, []))\<lparr>stderr := ''Unrecognized command: zz '' @ [CHR 0x0A] @ ''tinyg[mm] ok> ''\<rparr>) \<and>
   32 \<le> unat (200::u8) \<and>
   dispatch_return demo_env 200 ''zz'' (demo_state (TG_OK, [])) = Inl Table_Overrun"
  using dispatch_return_by_mode
    [of "(demo_state (TG_OK, []))\<lparr>tg := (tg (demo_state (TG_OK, [])))\<lparr>communications_mode := TG_JSON_MODE\<rparr>\<rparr>"
        demo_env 17 "''{}''"]
    dispatch_return_by_mode
    [of "(demo_state (TG_OK, []))\<lparr>tg := (tg (demo_state (TG_OK, [])))\<lparr>communications_mode := TG_GRBL_MODE\<rparr>\<rparr>"
        demo_env TG_OK "''g0 x1''"]
    dispatch_return_by_mode
    [of "(demo_state (TG_OK, []))\<lparr>tg := (tg (demo_state (TG_OK, [])))\<lparr>communications_mode := TG_GRBL_MODE\<rparr>\<rparr>"
        demo_env 14 "''g0 x1''"]
    dispatch_return_by_mode [of "demo_state (TG_OK, [])" demo_env TG_NOOP "''$x''"]
    dispatch_return_by_mode [of "demo_state (TG_OK, [])" demo_env 14 "''zz''"]
    dispatch_return_by_mode [of "demo_state (TG_OK, [])" demo_env 200 "''zz''"]
  by (simp add: demo_defs status_defs msgStatus_def)

section \<open>Line dispatcher\<close>

text \<open>C4: a completed line (the read returned \<open>TG_OK\<close>) is classified by its first
  character after \<open>toupper\<close>. With \<open>$\<close> or \<open>?\<close> the mode becomes TEXT unless it is
  GRBL-compatible, in which case it stays; the line goes to the config parser and the
  parser's status, with the line, goes to the emitter. With \<open>{\<close> the mode becomes JSON
  whatever it was; the line goes to the JSON parser and the parser's status and output
  buffer go to the emitter.\<close>
theorem dispatch_config_and_json_lines:
  assumes "xio_gets env (src (tg s)) (in_buf (tg s)) (sizeof_in_buf env) (world s) = ((TG_OK, line), w)"
  shows
    "((toupper (char0 line) = CHR ''$'' \<or> toupper (char0 line) = CHR ''?'') \<and>
      cfg_config_parser env line w = (st, w2) \<longrightarrow>
        dispatch env s =
          return_OK (dispatch_return env st line
            (if communications_mode (tg s) = TG_GRBL_MODE
             then s\<lparr>tg := (tg s)\<lparr>in_buf := line\<rparr>, world := w2\<rparr>
             else s\<lparr>tg := (tg s)\<lparr>in_buf := line, communications_mode := TG_TEXT_MODE\<rparr>,
                    world := w2\<rparr>))) \<and>
     (toupper (char0 line) = CHR ''{'' \<and>
      js_json_parser env line (out_buf (tg s)) w = ((st, out), w2) \<longrightarrow>
        dispatch env s =
          return_OK (dispatch_return env st out
            (s\<lparr>tg := (tg s)\<lparr>in_buf := line, communications_mode := TG_JSON_MODE,
                   out_buf := out\<rparr>,
               world := w2\<rparr>)))"
  using assms by (auto simp: dispatch_def Let_def NUL_def)

text \<open>The line \<open>$x\<close> in GRBL-compatible mode (the mode stays, the answer is "ok"), the
  line \<open>?\<close> in JSON mode (the mode becomes TEXT, the answer is the prompt), and a line
  that starts with \<open>{\<close> in TEXT mode (the mode becomes JSON, the answer is the parser's
  buffer).\<close>
theorem dispatch_config_and_json_lines_witness:
  "dispatch demo_env
     ((demo_state (TG_OK, ''$x''))\<lparr>tg := (tg (demo_state (TG_OK, ''$x'')))\<lparr>communications_mode := TG_GRBL_MODE\<rparr>\<rparr>) =
     Inr (TG_OK, (demo_state (TG_OK, ''$x''))
        \<lparr>tg := (tg (demo_state (TG_OK, ''$x'')))\<lparr>communications_mode := TG_GRBL_MODE, in_buf := ''$x''\<rparr>,
         stderr := ''ok''\<rparr>) \<and>
   dispatch demo_env
     ((demo_state (TG_OK, ''?''))\<lparr>tg := (tg (demo_state (TG_OK, ''?'')))\<lparr>communications_mode := TG_JSON_MODE\<rparr>\<rparr>) =
     Inr (TG_OK, (demo_state (TG_OK, ''?''))
        \<lparr>tg := (tg (demo_state (TG_OK, ''?'')))\<lparr>in_buf := ''?''\<rparr>, stderr := ''tinyg[mm] ok> ''\<rparr>) \<and>
   dispatch demo_env (demo_state (TG_OK, ''{x}'')) =
     Inr (TG_OK, (demo_state (TG_OK, ''{x}''))
        \<lparr>tg := (tg (demo_state (TG_OK, ''{x}'')))
                 \<lparr>communications_mode := TG_JSON_MODE, in_buf := ''{x}'', out_buf := ''{}''\<rparr>,
         stderr := ''{}''\<rparr>)"
  using dispatch_config_and_json_lines
    [of demo_env
        "(demo_state (TG_OK, ''$x''))\<lparr>tg := (tg (demo_state (TG_OK, ''$x'')))\<lparr>communications_mode := TG_GRBL_MODE\<rparr>\<rparr>"
        "''$x''" "(TG_OK, ''$x'')" TG_OK "(TG_OK, ''$x'')"]
    dispatch_config_and_json_lines
    [of demo_env
        "(demo_state (TG_OK, ''?''))\<lparr>tg := (tg (demo_state (TG_OK, ''?'')))\<lparr>communications_mode := TG_JSON_MODE\<rparr>\<rparr>"
        "''?''" "(TG_OK, ''?'')" TG_OK "(TG_OK, ''?'')"]
    dispatch_config_and_json_lines
    [of demo_env "demo_state (TG_OK, ''{x}'')" "''{x}''" "(TG_OK, ''{x}'')" 17 "(TG_OK, ''{x}'')" "''{}''"]
  by (simp add: demo_defs status_defs response_defs char0_def toupper_def)

text \<open>C10: when the read returns a status other than \<open>TG_OK\<close>, \<open>TG_EAGAIN\<close> and
  \<open>TG_EOF\<close>, the line dispatcher returns that status; the state changes only by what
  the read itself did (the buffer it wrote and its effect on the world): nothing is written
  to the error stream, the source, the mode and the prompt flag are as before, and no parser
  ran. The \<open>DISPATCH\<close> macro then goes on to whatever follows, as it does after success.\<close>
theorem dispatch_read_error_flows_through:
  assumes "xio_gets env (src (tg s)) (in_buf (tg s)) (sizeof_in_buf env) (world s) = ((status, line), w)"
    and "status \<noteq> TG_OK" and "status \<noteq> TG_EAGAIN" and "status \<noteq> TG_EOF"
  shows "dispatch env s = Inr (status, s\<lparr>tg := (tg s)\<lparr>in_buf := line\<rparr>, world := w\<rparr>) \<and>
         DISPATCH P_dispatch (dispatch env) rest (calls, s) =
           rest (calls @ [(P_dispatch, status)], s\<lparr>tg := (tg s)\<lparr>in_buf := line\<rparr>, world := w\<rparr>)"
  using assms by (simp add: dispatch_def DISPATCH_def Let_def)

text \<open>The read fails with status 1 ("Error"): a whole pass runs all thirteen probes and
  leaves the error stream empty.\<close>
theorem dispatch_read_error_flows_through_witness:
  "xio_gets demo_env (src (tg (demo_state (1, [])))) (in_buf (tg (demo_state (1, []))))
     (sizeof_in_buf demo_env) (world (demo_state (1, []))) = ((1, []), (1, [])) \<and>
   (1::u8) \<noteq> TG_OK \<and> (1::u8) \<noteq> TG_EAGAIN \<and> (1::u8) \<noteq> TG_EOF \<and>
   dispatch demo_env (demo_state (1, [])) = Inr (1, demo_state (1, [])) \<and>
   DISPATCH P_dispatch (dispatch demo_env) Inr ([], demo_state (1, [])) =
     Inr ([(P_dispatch, 1)], demo_state (1, [])) \<and>
   controller_HSM demo_env (demo_state (1, [])) =
     Inr ([(P_gpio_switch_handler, TG_NOOP), (P_abort_handler, TG_NOOP),
           (P_feedhold_handler, TG_NOOP), (P_cycle_start_handler, TG_NOOP),
           (P_rpt_status_report_callback, TG_NOOP), (P_mp_plan_hold_callback, TG_NOOP),
           (P_mp_end_hold_callback, TG_NOOP), (P_ar_arc_callback, TG_NOOP),
           (P_cm_homing_callback, TG_NOOP), (P_cm_return_to_home_callback, TG_NOOP),
           (P_sync_to_tx_buffer, TG_OK), (P_sync_to_planner, TG_OK), (P_dispatch, 1)],
          demo_state (1, []))"
  using dispatch_read_error_flows_through
    [of demo_env "demo_state (1, [])" 1 "[]" "(1, [])" Inr "[]"]
  by (simp add: demo_defs status_defs pass_defs handler_defs)

section \<open>JSON envelope for G-code\<close>

text \<open>C5: for a G-code line dispatched in JSON mode the envelope is, in order, a group
  marker, the echoed original command text as a string, the status of the G-code parser
  as an integer and that status's message as a string. The order, the types, the status
  and the message are as stated (lemma \<open>gcode_response_objects_plain\<close>), but the echo
  is not always the original text: the line is given to \<open>sprintf\<close> as its format
  string. Here the line \<open>(50%%)\<close>, parsed with \<open>TG_OK\<close>, is echoed as \<open>(50%)\<close>,
  in the objects built and in what the dispatcher writes out.\<close>
theorem json_gcode_echo_percent:
  "gcode_response_objects demo_env TG_OK ''(50%%)'' =
     Inr [\<lparr>token = ''gc'', value_type = VALUE_TYPE_PARENT, value = 0, string_value = []\<rparr>,
          \<lparr>token = ''gc'', value_type = VALUE_TYPE_STRING, value = 0, string_value = ''(50%)''\<rparr>,
          \<lparr>token = ''st'', value_type = VALUE_TYPE_INTEGER, value = 0, string_value = []\<rparr>,
          \<lparr>token = ''msg'', value_type = VALUE_TYPE_STRING, value = 0, string_value = ''OK''\<rparr>] \<and>
   dispatch demo_env
     ((demo_state (TG_OK, ''(50%%)''))
        \<lparr>tg := (tg (demo_state (TG_OK, ''(50%%)'')))\<lparr>communications_mode := TG_JSON_MODE\<rparr>\<rparr>) =
     Inr (TG_OK, (demo_state (TG_OK, ''(50%%)''))
        \<lparr>tg := (tg (demo_state (TG_OK, ''(50%%)'')))
                 \<lparr>communications_mode := TG_JSON_MODE, in_buf := ''(50%%)'', out_buf := ''(50%)OK''\<rparr>,
         stderr := ''(50%)OK''\<rparr>)"
  by (simp add: gcode_response_objects_def tg_make_json_gcode_response_def
      tg_get_status_message_def msgStatus_def demo_defs status_defs response_defs
      dispatch_def char0_def toupper_def Let_def)

text \<open>A line that is a lone \<open>%\<close> (the program delimiter of G-code files) leaves
  \<open>sprintf\<close> with a directive that is cut short.\<close>
lemma json_gcode_lone_percent:
  "gcode_response_objects demo_env TG_OK ''%'' = Inl Bad_Format"
  by (simp add: gcode_response_objects_def)

section \<open>Flow-control gates\<close>

text \<open>The transmit gate does not look at the active source. A \<open>T\<close> line makes the
  program-memory script (device 3) the active source. With ten bytes queued on USB and none
  on the script device the gate then returns \<open>TG_EAGAIN\<close>, though the count of the active
  device is below the threshold of four; with nothing queued on USB and ten bytes counted
  for the script device it returns \<open>TG_OK\<close>, though the count of the active device is
  above the threshold.\<close>
theorem tx_gate_reads_usb_not_active_source:
  "dispatch busy_env (demo_state (TG_OK, ''T'')) =
     Inr (TG_OK, (demo_state (TG_OK, ''T''))
       \<lparr>tg := (tg (demo_state (TG_OK, ''T'')))\<lparr>src := 3, prompt_enabled := False, in_buf := ''T''\<rparr>\<rparr>) \<and>
   XIO_DEV_PGM busy_env = 3 \<and> XIO_DEV_USB busy_env = 1 \<and>
   xio_get_tx_bufcount_usart busy_env 3 (TG_OK, ''T'') < XOFF_TX_LO_WATER_MARK busy_env \<and>
   sync_to_tx_buffer busy_env ((demo_state (TG_OK, ''T''))
       \<lparr>tg := (tg (demo_state (TG_OK, ''T'')))\<lparr>src := 3, prompt_enabled := False, in_buf := ''T''\<rparr>\<rparr>) =
     (TG_EAGAIN, (demo_state (TG_OK, ''T''))
       \<lparr>tg := (tg (demo_state (TG_OK, ''T'')))\<lparr>src := 3, prompt_enabled := False, in_buf := ''T''\<rparr>\<rparr>) \<and>
   dispatch demo_env (demo_state (TG_OK, ''T'')) =
     Inr (TG_OK, (demo_state (TG_OK, ''T''))
       \<lparr>tg := (tg (demo_state (TG_OK, ''T'')))\<lparr>src := 3, prompt_enabled := False, in_buf := ''T''\<rparr>\<rparr>) \<and>
   XOFF_TX_LO_WATER_MARK demo_env \<le> xio_get_tx_bufcount_usart demo_env 3 (TG_OK, ''T'') \<and>
   sync_to_tx_buffer demo_env ((demo_state (TG_OK, ''T''))
       \<lparr>tg := (tg (demo_state (TG_OK, ''T'')))\<lparr>src := 3, prompt_enabled := False, in_buf := ''T''\<rparr>\<rparr>) =
     (TG_OK, (demo_state (TG_OK, ''T''))
       \<lparr>tg := (tg (demo_state (TG_OK, ''T'')))\<lparr>src := 3, prompt_enabled := False, in_buf := ''T''\<rparr>\<rparr>)"
  by (simp add: demo_defs status_defs handler_defs dispatch_def char0_def toupper_def Let_def)

text \<open>C6, as the code has it: the transmit gate returns CONTINUE exactly when the
  transmit count of the USB device is at or above \<open>XOFF_TX_LO_WATER_MARK\<close>, whatever
  the active source is; the planner gate returns CONTINUE exactly when the planner reports
  no free write buffer; otherwise each returns SUCCESS, and neither changes the state.
  Both gates run before line dispatch: in a pass that calls the line dispatcher, the
  dispatcher runs on a state in which both gates have just returned SUCCESS (the USB count
  is below the threshold and the planner has a free buffer), and the pass ends in the
  state the dispatcher left; a pass that does not call the dispatcher ends in the state
  left by one of the twelve probes before it, which returned CONTINUE.\<close>
theorem flow_control_gates:
  "sync_to_tx_buffer env s =
     (if XOFF_TX_LO_WATER_MARK env \<le> xio_get_tx_bufcount_usart env (XIO_DEV_USB env) (world s)
      then TG_EAGAIN else TG_OK, s) \<and>
   sync_to_planner env s = (if mp_test_write_buffer env (world s) then TG_OK else TG_EAGAIN, s) \<and>
   (controller_HSM env s = Inr (calls, s') \<and> P_dispatch \<in> fst ` set calls \<longrightarrow>
      (\<exists>t st. xio_get_tx_bufcount_usart env (XIO_DEV_USB env) (world t) < XOFF_TX_LO_WATER_MARK env \<and>
         mp_test_write_buffer env (world t) \<and>
         sync_to_tx_buffer env t = (TG_OK, t) \<and> sync_to_planner env t = (TG_OK, t) \<and>
         dispatch env t = Inr (st, s') \<and> length calls = 13 \<and>
         calls ! 10 = (P_sync_to_tx_buffer, TG_OK) \<and> calls ! 11 = (P_sync_to_planner, TG_OK) \<and>
         calls ! 12 = (P_dispatch, st))) \<and>
   (controller_HSM env s = Inr (calls, s') \<and> P_dispatch \<notin> fst ` set calls \<longrightarrow>
      (\<exists>i t. i < 12 \<and> length calls = Suc i \<and>
         snd (probe_table env ! i) t = Inr (TG_EAGAIN, s')))"
proof (intro conjI impI)
  show "sync_to_tx_buffer env s =
     (if XOFF_TX_LO_WATER_MARK env \<le> xio_get_tx_bufcount_usart env (XIO_DEV_USB env) (world s)
      then TG_EAGAIN else TG_OK, s)"
    by (simp add: sync_to_tx_buffer_def)
  show "sync_to_planner env s = (if mp_test_write_buffer env (world s) then TG_OK else TG_EAGAIN, s)"
    by (simp add: sync_to_planner_def)
next
  assume a: "controller_HSM env s = Inr (calls, s') \<and> P_dispatch \<in> fst ` set calls"
  then have run: "controller_HSM env s = Inr (calls, s')" and len: "length calls = 13"
    using dispatch_called_last by blast+
  from controller_HSM_trace[OF run] obtain states where st:
    "states ! length calls = s'"
    "\<forall>i<length calls. fst (calls ! i) = priority_order ! i \<and>
        snd (probe_table env ! i) (states ! i) = Inr (snd (calls ! i), states ! Suc i) \<and>
        (snd (calls ! i) = TG_EAGAIN \<longrightarrow> Suc i = length calls) \<and>
        (snd (calls ! i) \<noteq> TG_EAGAIN \<longrightarrow> Suc i < 13 \<longrightarrow> Suc i < length calls)"
    by blast
  have n10: "snd (calls ! 10) \<noteq> TG_EAGAIN"
    using st(2)[rule_format, of 10] len by auto
  have n11: "snd (calls ! 11) \<noteq> TG_EAGAIN"
    using st(2)[rule_format, of 11] len by auto
  have g10: "sync_to_tx_buffer env (states ! 10) = (snd (calls ! 10), states ! 11)"
    using st(2)[rule_format, of 10] len by (simp add: probe_table_def)
  have g11: "sync_to_planner env (states ! 11) = (snd (calls ! 11), states ! 12)"
    using st(2)[rule_format, of 11] len by (simp add: probe_table_def)
  have d12: "dispatch env (states ! 12) = Inr (snd (calls ! 12), s')"
    using st(2)[rule_format, of 12] st(1) len by (simp add: probe_table_def)
  from g10 n10 have tx: "snd (calls ! 10) = TG_OK" "states ! 11 = states ! 10"
    "xio_get_tx_bufcount_usart env (XIO_DEV_USB env) (world (states ! 10)) < XOFF_TX_LO_WATER_MARK env"
    by (auto simp: sync_to_tx_buffer_def split: if_splits)
  from g11 n11 have pl: "snd (calls ! 11) = TG_OK" "states ! 12 = states ! 11"
    "mp_test_write_buffer env (world (states ! 11))"
    by (auto simp: sync_to_planner_def split: if_splits)
  have names: "fst (calls ! 10) = P_sync_to_tx_buffer" "fst (calls ! 11) = P_sync_to_planner"
    "fst (calls ! 12) = P_dispatch"
    using st(2)[rule_format, of 10] st(2)[rule_format, of 11] st(2)[rule_format, of 12] len
    by (simp_all add: priority_order_def)
  show "\<exists>t st. xio_get_tx_bufcount_usart env (XIO_DEV_USB env) (world t) < XOFF_TX_LO_WATER_MARK env \<and>
         mp_test_write_buffer env (world t) \<and>
         sync_to_tx_buffer env t = (TG_OK, t) \<and> sync_to_planner env t = (TG_OK, t) \<and>
         dispatch env t = Inr (st, s') \<and> length calls = 13 \<and>
         calls ! 10 = (P_sync_to_tx_buffer, TG_OK) \<and> calls ! 11 = (P_sync_to_planner, TG_OK) \<and>
         calls ! 12 = (P_dispatch, st)"
    using tx pl names g10 g11 d12 len
    by (intro exI[of _ "states ! 10"] exI[of _ "snd (calls ! 12)"]) (simp add: prod_eq_iff)
next
  assume a: "controller_HSM env s = Inr (calls, s') \<and> P_dispatch \<notin> fst ` set calls"
  then have run: "controller_HSM env s = Inr (calls, s')" and len: "length calls \<noteq> 13"
    using dispatch_called_last by blast+
  from controller_HSM_trace[OF run] obtain states where st:
    "states ! length calls = s'" "calls \<noteq> []" "length calls \<le> 13"
    "\<forall>i<length calls. fst (calls ! i) = priority_order ! i \<and>
        snd (probe_table env ! i) (states ! i) = Inr (snd (calls ! i), states ! Suc i) \<and>
        (snd (calls ! i) = TG_EAGAIN \<longrightarrow> Suc i = length calls) \<and>
        (snd (calls ! i) \<noteq> TG_EAGAIN \<longrightarrow> Suc i < 13 \<longrightarrow> Suc i < length calls)"
    by blast
  from st(2) obtain i where i: "length calls = Suc i" by (cases calls) auto
  with len st(3) have i12: "i < 12" by simp
  have "snd (calls ! i) = TG_EAGAIN"
    using st(4)[rule_format, of i] i i12 by auto
  moreover have "snd (probe_table env ! i) (states ! i) = Inr (snd (calls ! i), states ! Suc i)"
    using st(4)[rule_format, of i] i by simp
  ultimately have "snd (probe_table env ! i) (states ! i) = Inr (TG_EAGAIN, s')"
    using st(1) i by simp
  with i i12 show "\<exists>i t. i < 12 \<and> length calls = Suc i \<and>
         snd (probe_table env ! i) t = Inr (TG_EAGAIN, s')" by blast
qed

text \<open>A complete pass on the line \<open>$x\<close>, and the same pass with output backed up on
  USB: it ends at the transmit gate, and the line is neither read nor answered.\<close>
theorem flow_control_gates_witness:
  "controller_HSM demo_env (demo_state (TG_OK, ''$x'')) =
     Inr ([(P_gpio_switch_handler, TG_NOOP), (P_abort_handler, TG_NOOP),
           (P_feedhold_handler, TG_NOOP), (P_cycle_start_handler, TG_NOOP),
           (P_rpt_status_report_callback, TG_NOOP), (P_mp_plan_hold_callback, TG_NOOP),
           (P_mp_end_hold_callback, TG_NOOP), (P_ar_arc_callback, TG_NOOP),
           (P_cm_homing_callback, TG_NOOP), (P_cm_return_to_home_callback, TG_NOOP),
           (P_sync_to_tx_buffer, TG_OK), (P_sync_to_planner, TG_OK), (P_dispatch, TG_OK)],
          (demo_state (TG_OK, ''$x''))
            \<lparr>tg := (tg (demo_state (TG_OK, ''$x'')))\<lparr>in_buf := ''$x''\<rparr>, stderr := ''tinyg[mm] ok> ''\<rparr>) \<and>
   P_dispatch \<in> fst ` set
         [(P_gpio_switch_handler, TG_NOOP), (P_abort_handler, TG_NOOP),
           (P_feedhold_handler, TG_NOOP), (P_cycle_start_handler, TG_NOOP),
           (P_rpt_status_report_callback, TG_NOOP), (P_mp_plan_hold_callback, TG_NOOP),
           (P_mp_end_hold_callback, TG_NOOP), (P_ar_arc_callback, TG_NOOP),
           (P_cm_homing_callback, TG_NOOP), (P_cm_return_to_home_callback, TG_NOOP),
           (P_sync_to_tx_buffer, TG_OK), (P_sync_to_planner, TG_OK), (P_dispatch, TG_OK)] \<and>
   sync_to_tx_buffer demo_env (demo_state (TG_OK, ''$x'')) = (TG_OK, demo_state (TG_OK, ''$x'')) \<and>
   sync_to_planner demo_env (demo_state (TG_OK, ''$x'')) = (TG_OK, demo_state (TG_OK, ''$x'')) \<and>
   dispatch demo_env (demo_state (TG_OK, ''$x'')) =
     Inr (TG_OK, (demo_state (TG_OK, ''$x''))
            \<lparr>tg := (tg (demo_state (TG_OK, ''$x'')))\<lparr>in_buf := ''$x''\<rparr>, stderr := ''tinyg[mm] ok> ''\<rparr>) \<and>
   controller_HSM busy_env (demo_state (TG_OK, ''$x'')) =
     Inr ([(P_gpio_switch_handler, TG_NOOP), (P_abort_handler, TG_NOOP),
           (P_feedhold_handler, TG_NOOP), (P_cycle_start_handler, TG_NOOP),
           (P_rpt_status_report_callback, TG_NOOP), (P_mp_plan_hold_callback, TG_NOOP),
           (P_mp_end_hold_callback, TG_NOOP), (P_ar_arc_callback, TG_NOOP),
           (P_cm_homing_callback, TG_NOOP), (P_cm_return_to_home_callback, TG_NOOP),
           (P_sync_to_tx_buffer, TG_EAGAIN)],
          demo_state (TG_OK, ''$x'')) \<and>
   P_dispatch \<notin> fst ` set
         [(P_gpio_switch_handler, TG_NOOP), (P_abort_handler, TG_NOOP),
           (P_feedhold_handler, TG_NOOP), (P_cycle_start_handler, TG_NOOP),
           (P_rpt_status_report_callback, TG_NOOP), (P_mp_plan_hold_callback, TG_NOOP),
           (P_mp_end_hold_callback, TG_NOOP), (P_ar_arc_callback, TG_NOOP),
           (P_cm_homing_callback, TG_NOOP), (P_cm_return_to_home_callback, TG_NOOP),
           (P_sync_to_tx_buffer, TG_EAGAIN)] \<and>
   sync_to_tx_buffer busy_env (demo_state (TG_OK, ''$x'')) = (TG_EAGAIN, demo_state (TG_OK, ''$x''))"
  using flow_control_gates
    [of demo_env "demo_state (TG_OK, ''$x'')"
        "[(P_gpio_switch_handler, TG_NOOP), (P_abort_handler, TG_NOOP),
           (P_feedhold_handler, TG_NOOP), (P_cycle_start_handler, TG_NOOP),
           (P_rpt_status_report_callback, TG_NOOP), (P_mp_plan_hold_callback, TG_NOOP),
           (P_mp_end_hold_callback, TG_NOOP), (P_ar_arc_callback, TG_NOOP),
           (P_cm_homing_callback, TG_NOOP), (P_cm_return_to_home_callback, TG_NOOP),
           (P_sync_to_tx_buffer, TG_OK), (P_sync_to_planner, TG_OK), (P_dispatch, TG_OK)]"
        "(demo_state (TG_OK, ''$x''))
            \<lparr>tg := (tg (demo_state (TG_OK, ''$x'')))\<lparr>in_buf := ''$x''\<rparr>, stderr := ''tinyg[mm] ok> ''\<rparr>"]
    flow_control_gates
    [of busy_env "demo_state (TG_OK, ''$x'')"
        "[(P_gpio_switch_handler, TG_NOOP), (P_abort_handler, TG_NOOP),
           (P_feedhold_handler, TG_NOOP), (P_cycle_start_handler, TG_NOOP),
           (P_rpt_status_report_callback, TG_NOOP), (P_mp_plan_hold_callback, TG_NOOP),
           (P_mp_end_hold_callback, TG_NOOP), (P_ar_arc_callback, TG_NOOP),
           (P_cm_homing_callback, TG_NOOP), (P_cm_return_to_home_callback, TG_NOOP),
           (P_sync_to_tx_buffer, TG_EAGAIN)]"
        "demo_state (TG_OK, ''$x'')"]
  by (simp add: demo_defs status_defs pass_defs handler_defs response_defs)

section \<open>Input source\<close>

text \<open>C7: when the abort handler finds the abort flag set, the active source afterwards
  is the default device, whatever it was before, and the default device is unchanged;
  prompting is enabled again provided the default device is not the program-memory device
  (the spec lists the default interactive device and the diagnostic script as different
  sources).\<close>
theorem abort_restores_default_source:
  "sig_abort (sig s) \<Longrightarrow>
   src (tg (snd (abort_handler env s))) = default_src (tg s) \<and>
   default_src (tg (snd (abort_handler env s))) = default_src (tg s) \<and>
   (default_src (tg s) \<noteq> XIO_DEV_PGM env \<longrightarrow> prompt_enabled (tg (snd (abort_handler env s))))"
  by (simp add: abort_handler_def tg_reset_def tg_application_init_def tg_reset_source_def
      set_active_source_def)

text \<open>Abort while the script (device 3) is the active source and prompting is off.\<close>
theorem abort_restores_default_source_witness:
  "sig_abort (sig ((demo_state (TG_EAGAIN, []))
      \<lparr>tg := (tg (demo_state (TG_EAGAIN, [])))\<lparr>src := 3, prompt_enabled := False\<rparr>,
       sig := \<lparr>sig_abort = True, sig_feedhold = False, sig_cycle_start = False\<rparr>\<rparr>)) \<and>
   default_src (tg ((demo_state (TG_EAGAIN, []))
      \<lparr>tg := (tg (demo_state (TG_EAGAIN, [])))\<lparr>src := 3, prompt_enabled := False\<rparr>,
       sig := \<lparr>sig_abort = True, sig_feedhold = False, sig_cycle_start = False\<rparr>\<rparr>)) \<noteq> XIO_DEV_PGM demo_env \<and>
   XIO_DEV_PGM demo_env = 3 \<and>
   abort_handler demo_env ((demo_state (TG_EAGAIN, []))
      \<lparr>tg := (tg (demo_state (TG_EAGAIN, [])))\<lparr>src := 3, prompt_enabled := False\<rparr>,
       sig := \<lparr>sig_abort = True, sig_feedhold = False, sig_cycle_start = False\<rparr>\<rparr>) =
     (TG_EAGAIN, demo_state (TG_EAGAIN, [])) \<and>
   src (tg (demo_state (TG_EAGAIN, []))) = 1 \<and>
   prompt_enabled (tg (demo_state (TG_EAGAIN, [])))"
  using abort_restores_default_source
    [of "(demo_state (TG_EAGAIN, []))
      \<lparr>tg := (tg (demo_state (TG_EAGAIN, [])))\<lparr>src := 3, prompt_enabled := False\<rparr>,
       sig := \<lparr>sig_abort = True, sig_feedhold = False, sig_cycle_start = False\<rparr>\<rparr>" demo_env]
  by (simp add: demo_defs handler_defs)

text \<open>C8: while the program-memory script is the active source no prompt is to be
  emitted; switching to the script disables prompting and switching back enables it. The
  flag \<open>prompt_enabled\<close> is switched as stated (lemma \<open>set_active_source_prompt\<close>), but
  \<open>_prompt_without_message\<close> never reads it. Here a \<open>T\<close> line has made the script the
  active source and cleared the flag; the next line, \<open>G0 X1\<close>, is answered in TEXT mode
  with the prompt.\<close>
theorem prompt_emitted_while_script_active:
  "src (tg (snd (test_T demo_env (demo_state (TG_OK, ''G0 X1''))))) = XIO_DEV_PGM demo_env \<and>
   prompt_enabled (tg (snd (test_T demo_env (demo_state (TG_OK, ''G0 X1''))))) = False \<and>
   dispatch demo_env (snd (test_T demo_env (demo_state (TG_OK, ''G0 X1'')))) =
     Inr (TG_OK,
       \<lparr>tg = \<lparr>default_src = 1, src = 3, communications_mode = TG_TEXT_MODE,
               prompt_enabled = False, in_buf = ''G0 X1'', out_buf = []\<rparr>,
        sig = \<lparr>sig_abort = False, sig_feedhold = False, sig_cycle_start = False\<rparr>,
        stderr = ''tinyg[mm] ok> '', world = (TG_OK, ''G0 X1'')\<rparr>)"
  by (simp add: demo_defs status_defs handler_defs response_defs dispatch_def char0_def
      toupper_def Let_def)

section \<open>Status messages\<close>

text \<open>The lookup has no bounds check: the status 32 indexes past the 32 entries.\<close>
theorem status_message_lookup_overrun:
  "tg_get_status_message demo_env 32 = Inl Table_Overrun"
  by (simp add: tg_get_status_message_def length_msgStatus)

text \<open>C9, as the code has it: for a status from 0 to 31 the lookup reads inside the
  table of 32 messages and gives that status's message, at most \<open>STATUS_MESSAGE_LEN\<close>
  characters of it; for any larger status the read is past the end of the table, and there
  is no "unknown status" result.\<close>
theorem status_message_lookup_in_range:
  "(unat status < 32 \<longrightarrow>
      tg_get_status_message env status =
        Inr (take (STATUS_MESSAGE_LEN env) (msgStatus ! unat status))) \<and>
   (32 \<le> unat status \<longrightarrow> tg_get_status_message env status = Inl Table_Overrun) \<and>
   length msgStatus = 32"
  by (simp add: tg_get_status_message_def length_msgStatus)

text \<open>Status 14 is inside the table, status 200 is not.\<close>
theorem status_message_lookup_in_range_witness:
  "unat (14::u8) < 32 \<and>
   tg_get_status_message demo_env 14 = Inr ''Unrecognized command'' \<and>
   32 \<le> unat (200::u8) \<and>
   tg_get_status_message demo_env 200 = Inl Table_Overrun"
  using status_message_lookup_in_range [of 14 demo_env]
    status_message_lookup_in_range [of 200 demo_env]
  by (simp add: demo_defs msgStatus_def)

end
